theory Spec2Isabelle
  imports Main "HOL-Library.Word" "HOL-Library.Sublist"
begin

section \<open>The SDN plugin of gfal2 (\<^verbatim>\<open>src/gfal_sdn.c\<close>)\<close>

text \<open>
  The plugin registers one event listener per copy operation. The listener keeps the
  pairs of the current batch in a GSequence, sums the sizes of the sources when the batch
  ends, and reads the host, address and port out of a passive-mode description.

  Conventions of the embedding:
  \<^item> a C string is a \<open>string\<close> (the bytes before the terminating NUL); a \<^verbatim>\<open>char*\<close> that
    may be NULL is a \<open>string option\<close>, \<open>None\<close> being NULL;
  \<^item> \<^verbatim>\<open>off_t\<close> is a 64-bit word, \<open>+\<close> wraps around and \<open>sint\<close> reads the signed value;
  \<^item> a run of the C code that reads or writes outside an object, or dereferences NULL,
    ends in \<open>Inl\<close> of a \<open>fault\<close>; a run that completes ends in \<open>Inr\<close> of its result;
  \<^item> \<^verbatim>\<open>gfal2_log\<close>, a function of gfal2, is taken to record its message and return: it
    appends an entry to a log that is passed along explicitly;
  \<^item> \<^verbatim>\<open>gfal2_stat\<close> and \<^verbatim>\<open>gfal2_parse_uri\<close> belong to gfal2 itself: they are
    parameters of the functions that call them.
\<close>

subsection \<open>Data\<close>

type_synonym off_t = "64 word"

text \<open>\<^verbatim>\<open>typedef struct { char *source, *destination; } pair_t;\<close>\<close>

record pair_t =
  source :: "string option"
  destination :: "string option"

text \<open>
  \<^verbatim>\<open>typedef struct { GSequence *pairs; gfal2_context_t context; off_t total_size; } sdn_t;\<close>
  The sequence is the list of its elements, in order.
\<close>

record 'c sdn_t =
  pairs :: "pair_t list"
  sdn_context :: 'c
  total_size :: off_t

datatype fault =
    Read_past_vector_end
  | Null_dereference
  | Buffer_overflow
  | Value_out_of_range

subsection \<open>The log\<close>

datatype log_level =
    G_LOG_LEVEL_ERROR
  | G_LOG_LEVEL_CRITICAL
  | G_LOG_LEVEL_WARNING
  | G_LOG_LEVEL_MESSAGE

text \<open>
  One constructor per format string of the file, with the arguments of the call:
  \<^item> \<open>Could_not_stat\<close>: \<^verbatim>\<open>"Could not stat %s (%s)"\<close>;
  \<^item> \<open>Between\<close>: \<^verbatim>\<open>"Between %s and %s %d files with a total size of %lld bytes"\<close>;
  \<^item> \<open>Could_not_be_parsed\<close>: \<^verbatim>\<open>"The description could not be parsed: %s"\<close>;
  \<^item> \<open>Got\<close>: \<^verbatim>\<open>"Got %s:%d for host %s"\<close>.
\<close>

datatype log_msg =
    Could_not_stat "string option" string
  | Between "string option" "string option" nat off_t
  | Could_not_be_parsed string
  | Got string int string

type_synonym log = "(log_level \<times> log_msg) list"

definition gfal2_log :: "log_level \<Rightarrow> log_msg \<Rightarrow> log \<Rightarrow> log" where
  "gfal2_log level msg lg = lg @ [(level, msg)]"

subsection \<open>The C library and GLib functions the file calls\<close>

text \<open>
  \<^verbatim>\<open>strstr(haystack, needle)\<close>: the offset of the first occurrence of the needle, or
  \<open>None\<close> (NULL) when there is none.
\<close>

fun strstr :: "string \<Rightarrow> string \<Rightarrow> nat option" where
  "strstr [] needle = (if needle = [] then Some 0 else None)"
| "strstr (c # cs) needle =
     (if prefix needle (c # cs) then Some 0 else map_option Suc (strstr cs needle))"

text \<open>
  The loop of \<^verbatim>\<open>g_strsplit\<close>:
  \<^verbatim>\<open>while (--max_tokens && s) { len = s - remainder; add g_strndup(remainder, len);
       remainder = s + delimiter_len; s = strstr(remainder, delimiter); }\<close>
  The first argument is the number of splits still allowed, \<^verbatim>\<open>max_tokens - 1\<close>. The
  result is the tokens cut off and the remainder.
\<close>

fun split_loop :: "nat \<Rightarrow> string \<Rightarrow> string \<Rightarrow> string list \<times> string" where
  "split_loop 0 delimiter remainder = ([], remainder)"
| "split_loop (Suc m) delimiter remainder =
     (case strstr remainder delimiter of
        None \<Rightarrow> ([], remainder)
      | Some len \<Rightarrow>
          (case split_loop m delimiter (drop (len + length delimiter) remainder) of
             (tokens, rest) \<Rightarrow> (take len remainder # tokens, rest)))"

definition G_MAXINT :: int where
  "G_MAXINT = 2147483647"

text \<open>
  \<^verbatim>\<open>g_strsplit(string, delimiter, max_tokens)\<close>: the vector of tokens, without its NULL
  terminator. \<^verbatim>\<open>max_tokens < 1\<close> stands for \<^verbatim>\<open>G_MAXINT\<close>; the remainder is a token of its
  own unless the string is empty (\<^verbatim>\<open>if (*string)\<close>), so the empty string gives the empty
  vector. The delimiter is not empty at the only call.
\<close>

definition g_strsplit :: "string \<Rightarrow> string \<Rightarrow> int \<Rightarrow> string list" where
  "g_strsplit str delimiter max_tokens =
     (let mt = (if max_tokens < 1 then G_MAXINT else max_tokens) in
      case split_loop (nat (mt - 1)) delimiter str of
        (tokens, remainder) \<Rightarrow> tokens @ (if str \<noteq> [] then [remainder] else []))"

text \<open>
  Reading element \<open>i\<close> of a NULL-terminated vector: a token, the NULL terminator at
  index \<open>length v\<close>, and nothing of the vector beyond it.
\<close>

definition vector_get :: "string list \<Rightarrow> nat \<Rightarrow> fault + string option" where
  "vector_get v i =
     (if i < length v then Inr (Some (v ! i))
      else if i = length v then Inr None
      else Inl Read_past_vector_end)"

text \<open>\<^verbatim>\<open>g_strdup\<close> copies a string and returns NULL for NULL.\<close>

definition g_strdup :: "string option \<Rightarrow> string option" where
  "g_strdup s = s"

subsection \<open>\<^verbatim>\<open>sdn_create_pair\<close>\<close>

text \<open>
  \<^verbatim>\<open>gchar** splitted = g_strsplit(description, " => ", 2);
  pair->source = g_strdup(splitted[0]);
  pair->destination = g_strdup(splitted[1]);\<close>
\<close>

definition sdn_create_pair :: "string \<Rightarrow> fault + pair_t" where
  "sdn_create_pair description =
     (let splitted = g_strsplit description '' => '' 2 in
      case vector_get splitted 0 of
        Inl f \<Rightarrow> Inl f
      | Inr s0 \<Rightarrow>
          (case vector_get splitted 1 of
             Inl f \<Rightarrow> Inl f
           | Inr s1 \<Rightarrow> Inr \<lparr>source = g_strdup s0, destination = g_strdup s1\<rparr>))"

subsection \<open>GSequence\<close>

text \<open>
  A \<^verbatim>\<open>GSequence\<close> is the list of its elements. An iterator is a position from \<open>0\<close> to
  the length of the sequence, the length itself being the end iterator; \<open>None\<close> is a
  NULL iterator. \<^verbatim>\<open>g_sequence_get_begin_iter\<close> of an empty sequence is its end iterator,
  never NULL. \<^verbatim>\<open>g_sequence_get\<close> of the end iterator returns NULL
  (\<^verbatim>\<open>g_return_val_if_fail (!is_end (iter), NULL)\<close>).
\<close>

type_synonym GSequenceIter = nat

definition g_sequence_new :: "'a list" where
  "g_sequence_new = []"

definition g_sequence_get_begin_iter :: "'a list \<Rightarrow> GSequenceIter option" where
  "g_sequence_get_begin_iter seq = Some 0"

definition g_sequence_get_end_iter :: "'a list \<Rightarrow> GSequenceIter option" where
  "g_sequence_get_end_iter seq = Some (length seq)"

definition g_sequence_get :: "'a list \<Rightarrow> GSequenceIter \<Rightarrow> 'a option" where
  "g_sequence_get seq iter = (if iter < length seq then Some (seq ! iter) else None)"

definition g_sequence_remove_range ::
  "'a list \<Rightarrow> GSequenceIter option \<Rightarrow> GSequenceIter option \<Rightarrow> 'a list" where
  "g_sequence_remove_range seq begin_iter end_iter =
     (case begin_iter of
        None \<Rightarrow> seq
      | Some b \<Rightarrow> (case end_iter of None \<Rightarrow> seq | Some e \<Rightarrow> take b seq @ drop e seq))"

definition g_sequence_append :: "'a list \<Rightarrow> 'a \<Rightarrow> 'a list" where
  "g_sequence_append seq x = seq @ [x]"

definition g_sequence_get_length :: "'a list \<Rightarrow> nat" where
  "g_sequence_get_length seq = length seq"

text \<open>\<^verbatim>\<open>g_sequence_foreach (seq, func, user_data)\<close> calls \<open>func\<close> on each element, in order.\<close>

definition g_sequence_foreach :: "'a list \<Rightarrow> ('a \<Rightarrow> 's \<Rightarrow> 's) \<Rightarrow> 's \<Rightarrow> 's" where
  "g_sequence_foreach seq func user_data = fold func seq user_data"

subsection \<open>\<^verbatim>\<open>sdn_create_data\<close>\<close>

text \<open>\<^verbatim>\<open>g_new0\<close> zeroes the structure, so \<^verbatim>\<open>total_size\<close> starts at 0.\<close>

definition sdn_create_data :: "'c \<Rightarrow> 'c sdn_t" where
  "sdn_create_data ctx = \<lparr>pairs = g_sequence_new, sdn_context = ctx, total_size = 0\<rparr>"

subsection \<open>\<^verbatim>\<open>sdn_add_size\<close>\<close>

text \<open>
  \<^verbatim>\<open>gfal2_stat(sdn->context, pair->source, &st, &error)\<close> is the parameter \<open>gfal2_stat\<close>:
  \<open>Inr st_size\<close> when it returns 0, \<open>Inl message\<close> (the \<^verbatim>\<open>error->message\<close> it sets) when it
  returns a negative value.
\<close>

type_synonym 'c stat_fn = "'c \<Rightarrow> string option \<Rightarrow> string + off_t"

definition sdn_add_size :: "'c stat_fn \<Rightarrow> pair_t \<Rightarrow> 'c sdn_t \<times> log \<Rightarrow> 'c sdn_t \<times> log" where
  "sdn_add_size gfal2_stat pair = (\<lambda>(sdn, lg).
     case gfal2_stat (sdn_context sdn) (source pair) of
       Inl message \<Rightarrow>
         (sdn, gfal2_log G_LOG_LEVEL_ERROR (Could_not_stat (source pair) message) lg)
     | Inr st_size \<Rightarrow> (sdn\<lparr>total_size := total_size sdn + st_size\<rparr>, lg))"

subsection \<open>\<^verbatim>\<open>sdn_notify_remote\<close>\<close>

text \<open>
  Of \<^verbatim>\<open>gfal2_uri\<close> the file reads the field \<^verbatim>\<open>host\<close> only. \<^verbatim>\<open>gfal2_parse_uri(uri, NULL)\<close> is
  the parameter \<open>gfal2_parse_uri\<close>; \<open>None\<close> is the NULL it returns when it cannot parse.
\<close>

record gfal2_uri =
  host :: "string option"

type_synonym parse_uri_fn = "string option \<Rightarrow> gfal2_uri option"

text \<open>
  The lines \<^verbatim>\<open>data->total_size = 0; g_sequence_foreach(data->pairs, sdn_add_size, data);\<close>
  under the comment \<^verbatim>\<open>// Calculate the size\<close>.
\<close>

definition calculate_the_size :: "'c stat_fn \<Rightarrow> 'c sdn_t \<times> log \<Rightarrow> 'c sdn_t \<times> log" where
  "calculate_the_size gfal2_stat = (\<lambda>(data, lg).
     g_sequence_foreach (pairs data) (sdn_add_size gfal2_stat) (data\<lparr>total_size := 0\<rparr>, lg))"

text \<open>
  \<^verbatim>\<open>pair->source\<close> dereferences the pointer \<^verbatim>\<open>g_sequence_get\<close> returned, and
  \<^verbatim>\<open>source->host\<close>, \<^verbatim>\<open>destination->host\<close> the pointers \<^verbatim>\<open>gfal2_parse_uri\<close> returned; none of
  the three is tested against NULL.
\<close>

definition sdn_notify_remote ::
  "'c stat_fn \<Rightarrow> parse_uri_fn \<Rightarrow> 'c sdn_t \<times> log \<Rightarrow> fault + 'c sdn_t \<times> log" where
  "sdn_notify_remote gfal2_stat gfal2_parse_uri = (\<lambda>(data, lg).
     case g_sequence_get_begin_iter (pairs data) of
       None \<Rightarrow> Inr (data, lg)
     | Some iter \<Rightarrow>
         (case g_sequence_get (pairs data) iter of
            None \<Rightarrow> Inl Null_dereference
          | Some pair \<Rightarrow>
              (let src = gfal2_parse_uri (source pair);
                   dst = gfal2_parse_uri (destination pair)
               in case calculate_the_size gfal2_stat (data, lg) of
                    (data', lg') \<Rightarrow>
                      (case src of
                         None \<Rightarrow> Inl Null_dereference
                       | Some src_uri \<Rightarrow>
                           (case dst of
                              None \<Rightarrow> Inl Null_dereference
                            | Some dst_uri \<Rightarrow>
                                Inr (data',
                                     gfal2_log G_LOG_LEVEL_WARNING
                                       (Between (host src_uri) (host dst_uri)
                                          (g_sequence_get_length (pairs data'))
                                          (total_size data'))
                                       lg'))))))"

subsection \<open>\<^verbatim>\<open>sdn_dest_pasv\<close>\<close>

text \<open>The bracket expressions of the pattern, in the C locale.\<close>

definition char_range :: "char \<Rightarrow> char \<Rightarrow> char \<Rightarrow> bool" where
  "char_range lo hi c = ((of_char lo :: nat) \<le> of_char c \<and> (of_char c :: nat) \<le> of_char hi)"

definition is_host_char :: "char \<Rightarrow> bool" where
  "is_host_char c =
     (char_range CHR ''a'' CHR ''z'' c \<or> char_range CHR ''A'' CHR ''Z'' c \<or>
      char_range CHR ''0'' CHR ''9'' c \<or> c = CHR ''.'' \<or> c = CHR ''_'' \<or> c = CHR ''-'')"

definition is_ip_char :: "char \<Rightarrow> bool" where
  "is_ip_char c =
     (char_range CHR ''0'' CHR ''9'' c \<or> char_range CHR ''a'' CHR ''f'' c \<or>
      c = CHR ''.'' \<or> c = CHR '':'')"

definition is_digit :: "char \<Rightarrow> bool" where
  "is_digit c = char_range CHR ''0'' CHR ''9'' c"

text \<open>
  \<^verbatim>\<open>([a-zA-Z0-9._-]+):\[([0-9a-f.:]+)\]:([0-9]+)\<close> matched at the start of a string: the
  lengths of the three groups. A group is a run of characters of its class followed by a
  character outside the class (\<^verbatim>\<open>:\<close> after the host, \<^verbatim>\<open>]\<close> after the address), so it is the
  longest run; the port is the longest run of digits, POSIX matching being longest.
\<close>

definition match_here :: "string \<Rightarrow> (nat \<times> nat \<times> nat) option" where
  "match_here s =
     (let g1 = takeWhile is_host_char s; r1 = dropWhile is_host_char s in
      if g1 = [] \<or> \<not> prefix '':['' r1 then None
      else
        let g2 = takeWhile is_ip_char (drop 2 r1); r2 = dropWhile is_ip_char (drop 2 r1) in
        if g2 = [] \<or> \<not> prefix '']:'' r2 then None
        else
          let g3 = takeWhile is_digit (drop 2 r2) in
          if g3 = [] then None else Some (length g1, length g2, length g3))"

record regmatch_t =
  rm_so :: nat
  rm_eo :: nat

text \<open>
  \<^verbatim>\<open>regexec(&regex, description, 4, matches, 0)\<close>: the pattern has no anchor, so the
  match is the leftmost one, at the first offset where the pattern matches. \<open>None\<close> is
  \<^verbatim>\<open>REG_NOMATCH\<close>; otherwise the result is the array \<^verbatim>\<open>matches[0..3]\<close>. The pattern is a
  constant that \<^verbatim>\<open>regcomp\<close> accepts, so \<^verbatim>\<open>assert(retregex == 0)\<close> passes.
\<close>

fun regexec_from :: "nat \<Rightarrow> string \<Rightarrow> regmatch_t list option" where
  "regexec_from i s =
     (case match_here s of
        Some (n1, n2, n3) \<Rightarrow>
          Some [\<lparr>rm_so = i, rm_eo = i + n1 + 2 + n2 + 2 + n3\<rparr>,
                \<lparr>rm_so = i, rm_eo = i + n1\<rparr>,
                \<lparr>rm_so = i + n1 + 2, rm_eo = i + n1 + 2 + n2\<rparr>,
                \<lparr>rm_so = i + n1 + 2 + n2 + 2, rm_eo = i + n1 + 2 + n2 + 2 + n3\<rparr>]
      | None \<Rightarrow> (case s of [] \<Rightarrow> None | c # cs \<Rightarrow> regexec_from (Suc i) cs))"

definition regexec :: "string \<Rightarrow> regmatch_t list option" where
  "regexec description = regexec_from 0 description"

text \<open>
  \<^verbatim>\<open>g_strlcpy(dest, src, dest_size)\<close> writes \<open>min (strlen src + 1) dest_size\<close> bytes to
  \<open>dest\<close>: at most \<open>dest_size - 1\<close> characters of \<open>src\<close> and a NUL. The first argument
  is the size of the array \<open>dest\<close> points to; writing more bytes than that is a fault.
  The result is the string left in \<open>dest\<close>. Both calls pass a \<open>dest_size\<close> of at least
  1, a length plus one.
\<close>

definition g_strlcpy :: "nat \<Rightarrow> string \<Rightarrow> nat \<Rightarrow> fault + string" where
  "g_strlcpy capacity src dest_size =
     (if min (length src + 1) dest_size > capacity then Inl Buffer_overflow
      else Inr (take (dest_size - 1) src))"

text \<open>
  \<^verbatim>\<open>atoi\<close>: white space, an optional sign, then decimal digits, accumulated digit by
  digit. A value outside \<^verbatim>\<open>int\<close> is undefined in C: a fault here.
\<close>

definition isspace :: "char \<Rightarrow> bool" where
  "isspace c = (c = CHR '' '' \<or> char_range (CHR 0x09) (CHR 0x0D) c)"

definition digit_value :: "char \<Rightarrow> nat" where
  "digit_value c = of_char c - of_char CHR ''0''"

definition INT_MAX :: int where
  "INT_MAX = 2147483647"

definition INT_MIN :: int where
  "INT_MIN = - 2147483648"

definition atoi :: "string \<Rightarrow> fault + int" where
  "atoi nptr =
     (let s = dropWhile isspace nptr;
          negative = prefix ''-'' s;
          s' = (if prefix ''-'' s \<or> prefix ''+'' s then drop 1 s else s);
          magnitude = fold (\<lambda>c acc. acc * 10 + digit_value c) (takeWhile is_digit s') 0;
          v = (if negative then - int magnitude else int magnitude)
      in if INT_MIN \<le> v \<and> v \<le> INT_MAX then Inr v else Inl Value_out_of_range)"

text \<open>
  \<^verbatim>\<open>char host[256]; size_t len = matches[1].rm_eo - matches[1].rm_so + 1;
  if (len > sizeof(host)) len = sizeof(host);
  g_strlcpy(host, description + matches[1].rm_so, len);\<close>
  and the same for \<^verbatim>\<open>char ip[64]\<close> with \<^verbatim>\<open>matches[2]\<close>; then
  \<^verbatim>\<open>int port = atoi(description + matches[3].rm_so);\<close>
\<close>

definition sdn_dest_pasv :: "string \<Rightarrow> log \<Rightarrow> fault + log" where
  "sdn_dest_pasv description lg =
     (case regexec description of
        None \<Rightarrow> Inr (gfal2_log G_LOG_LEVEL_CRITICAL (Could_not_be_parsed description) lg)
      | Some matches \<Rightarrow>
          (let len1 = rm_eo (matches ! 1) - rm_so (matches ! 1) + 1;
               len1' = (if len1 > 256 then 256 else len1)
           in case g_strlcpy 256 (drop (rm_so (matches ! 1)) description) len1' of
                Inl f \<Rightarrow> Inl f
              | Inr host_buf \<Rightarrow>
                  (let len2 = rm_eo (matches ! 2) - rm_so (matches ! 2) + 1;
                       len2' = (if len2 > 64 then 64 else len2)
                   in case g_strlcpy 64 (drop (rm_so (matches ! 2)) description) len2' of
                        Inl f \<Rightarrow> Inl f
                      | Inr ip_buf \<Rightarrow>
                          (case atoi (drop (rm_so (matches ! 3)) description) of
                             Inl f \<Rightarrow> Inl f
                           | Inr port \<Rightarrow>
                               Inr (gfal2_log G_LOG_LEVEL_WARNING
                                      (Got ip_buf port host_buf) lg)))))"

subsection \<open>\<^verbatim>\<open>sdn_event_listener\<close>\<close>

datatype stage =
    GFAL_EVENT_LIST_ENTER
  | GFAL_EVENT_LIST_ITEM
  | GFAL_EVENT_LIST_EXIT
  | GFAL_GRIDFTP_PASV_STAGE_QUARK
  | Other_stage nat

text \<open>Of \<^verbatim>\<open>gfalt_event_t\<close> the listener reads \<^verbatim>\<open>stage\<close> and \<^verbatim>\<open>description\<close>.\<close>

record gfalt_event =
  stage :: stage
  description :: string

definition sdn_event_listener ::
  "'c stat_fn \<Rightarrow> parse_uri_fn \<Rightarrow> gfalt_event \<Rightarrow> 'c sdn_t \<times> log \<Rightarrow> fault + 'c sdn_t \<times> log" where
  "sdn_event_listener gfal2_stat gfal2_parse_uri e = (\<lambda>(data, lg).
     if stage e = GFAL_EVENT_LIST_ENTER then
       Inr (data\<lparr>pairs :=
                   g_sequence_remove_range (pairs data)
                     (g_sequence_get_begin_iter (pairs data))
                     (g_sequence_get_end_iter (pairs data))\<rparr>, lg)
     else if stage e = GFAL_EVENT_LIST_ITEM then
       (case sdn_create_pair (description e) of
          Inl f \<Rightarrow> Inl f
        | Inr pair \<Rightarrow> Inr (data\<lparr>pairs := g_sequence_append (pairs data) pair\<rparr>, lg))
     else if stage e = GFAL_EVENT_LIST_EXIT then
       sdn_notify_remote gfal2_stat gfal2_parse_uri (data, lg)
     else if stage e = GFAL_GRIDFTP_PASV_STAGE_QUARK then
       (case sdn_dest_pasv (description e) lg of
          Inl f \<Rightarrow> Inl f
        | Inr lg' \<Rightarrow> Inr (data, lg'))
     else Inr (data, lg))"

text \<open>
  gfal2 calls the listener once per event, in the order of the events; a fault ends the
  run.
\<close>

fun deliver ::
  "'c stat_fn \<Rightarrow> parse_uri_fn \<Rightarrow> gfalt_event list \<Rightarrow> 'c sdn_t \<times> log \<Rightarrow> fault + 'c sdn_t \<times> log" where
  "deliver gfal2_stat gfal2_parse_uri [] st = Inr st"
| "deliver gfal2_stat gfal2_parse_uri (e # es) st =
     (case sdn_event_listener gfal2_stat gfal2_parse_uri e st of
        Inl f \<Rightarrow> Inl f
      | Inr st' \<Rightarrow> deliver gfal2_stat gfal2_parse_uri es st')"

subsection \<open>Notions the properties are stated with\<close>

text \<open>
  For a metadata query \<open>gfal2_stat\<close> and a context: whether the lookup of a pair's source
  succeeds, the size it reports (0 when it fails), and the log entry of a failed lookup.
\<close>

definition stat_ok :: "'c stat_fn \<Rightarrow> 'c \<Rightarrow> pair_t \<Rightarrow> bool" where
  "stat_ok gfal2_stat ctx pair =
     (case gfal2_stat ctx (source pair) of Inl message \<Rightarrow> False | Inr st_size \<Rightarrow> True)"

definition stat_size :: "'c stat_fn \<Rightarrow> 'c \<Rightarrow> pair_t \<Rightarrow> off_t" where
  "stat_size gfal2_stat ctx pair =
     (case gfal2_stat ctx (source pair) of Inl message \<Rightarrow> 0 | Inr st_size \<Rightarrow> st_size)"

definition stat_failure :: "'c stat_fn \<Rightarrow> 'c \<Rightarrow> pair_t \<Rightarrow> log_level \<times> log_msg" where
  "stat_failure gfal2_stat ctx pair =
     (G_LOG_LEVEL_ERROR,
      Could_not_stat (source pair)
        (case gfal2_stat ctx (source pair) of Inl message \<Rightarrow> message | Inr st_size \<Rightarrow> []))"

text \<open>The sizes of the successful lookups, and the pairs whose lookup fails, in order.\<close>

definition successful_sizes :: "'c stat_fn \<Rightarrow> 'c \<Rightarrow> pair_t list \<Rightarrow> off_t list" where
  "successful_sizes gfal2_stat ctx ps =
     map (stat_size gfal2_stat ctx) (filter (stat_ok gfal2_stat ctx) ps)"

definition failed_lookups :: "'c stat_fn \<Rightarrow> 'c \<Rightarrow> pair_t list \<Rightarrow> pair_t list" where
  "failed_lookups gfal2_stat ctx ps = filter (\<lambda>p. \<not> stat_ok gfal2_stat ctx p) ps"

text \<open>
  The invariant the specification states for a session: \<^verbatim>\<open>total_size\<close> is the sum of the
  sizes of the successful lookups for the pairs currently held.
\<close>

definition registry_consistent :: "'c stat_fn \<Rightarrow> 'c sdn_t \<Rightarrow> bool" where
  "registry_consistent gfal2_stat data =
     (total_size data =
        sum_list (successful_sizes gfal2_stat (sdn_context data) (pairs data)))"

text \<open>
  The grammar of a passive-mode description, in the words of the specification: a host of
  \<^verbatim>\<open>[A-Za-z0-9._-]+\<close>, an address of \<^verbatim>\<open>[0-9a-f.:]+\<close> and a port of \<^verbatim>\<open>[0-9]+\<close>, written
  \<^verbatim>\<open>host:[ip]:port\<close>. A description matches the grammar when it is such a text, and
  contains an endpoint when such a text stands somewhere in it.
\<close>

definition endpoint_grammar :: "string \<Rightarrow> string \<Rightarrow> string \<Rightarrow> bool" where
  "endpoint_grammar h ip p =
     (h \<noteq> [] \<and> list_all is_host_char h \<and> ip \<noteq> [] \<and> list_all is_ip_char ip \<and>
      p \<noteq> [] \<and> list_all is_digit p)"

definition endpoint_text :: "string \<Rightarrow> string \<Rightarrow> string \<Rightarrow> string" where
  "endpoint_text h ip p = h @ '':['' @ ip @ '']:'' @ p"

definition matches_grammar :: "string \<Rightarrow> bool" where
  "matches_grammar d = (\<exists>h ip p. endpoint_grammar h ip p \<and> d = endpoint_text h ip p)"

definition contains_endpoint :: "string \<Rightarrow> bool" where
  "contains_endpoint d =
     (\<exists>before h ip p after.
        endpoint_grammar h ip p \<and> d = before @ endpoint_text h ip p @ after)"

text \<open>The number a string of digits denotes in base 10, most significant digit first.\<close>

fun decimal :: "string \<Rightarrow> nat" where
  "decimal [] = 0"
| "decimal (c # cs) = digit_value c * 10 ^ length cs + decimal cs"

text \<open>The substring of the description that a group of the pattern matched.\<close>

definition submatch :: "string \<Rightarrow> regmatch_t \<Rightarrow> string" where
  "submatch d m = take (rm_eo m - rm_so m) (drop (rm_so m) d)"

section \<open>Properties\<close>

subsection \<open>The pair description\<close>

lemma strstr_None_iff: "strstr h n = None \<longleftrightarrow> \<not> sublist n h"
  by (induction h) (auto simp: sublist_Cons_right)

text \<open>
  When the needle does not occur in \<open>s\<close> followed by all but the last character of the
  needle, its first occurrence in \<open>s @ n @ d\<close> is the one written after \<open>s\<close>.
\<close>

lemma strstr_first:
  "\<not> sublist n (s @ butlast n) \<Longrightarrow> n \<noteq> [] \<Longrightarrow> strstr (s @ n @ d) n = Some (length s)"
proof (induction s)
  case Nil
  then show ?case by (cases n) auto
next
  case (Cons c s)
  have "\<not> prefix n ((c # s) @ n @ d)"
  proof
    assume p: "prefix n ((c # s) @ n @ d)"
    have "length n \<le> length ((c # s) @ butlast n)"
      using Cons.prems(2) by (cases n) auto
    moreover have "prefix n (((c # s) @ butlast n) @ (last n # d))"
      using p Cons.prems(2)
      by (metis append.assoc append_Cons append_Nil append_butlast_last_id)
    ultimately have "prefix n ((c # s) @ butlast n)"
      by (metis prefix_length_prefix prefix_order.order_refl prefix_append prefixI)
    then show False
      using Cons.prems(1) by (meson prefix_imp_sublist)
  qed
  moreover have "\<not> sublist n (s @ butlast n)"
    using Cons.prems(1) by (simp add: sublist_Cons_right)
  ultimately show ?case
    using Cons by simp
qed

lemma separator_tail:
  "\<not> sublist '' => '' S \<Longrightarrow> \<not> suffix '' =>'' S \<Longrightarrow> \<not> sublist '' => '' (S @ '' =>'')"
  apply (auto simp: sublist_append)
  subgoal by (simp add: sublist_code)
  subgoal for xs1 xs2
    apply (cases xs2; simp)
    apply (auto simp: Cons_eq_append_conv append_eq_Cons_conv prefix_Cons suffix_def sublist_def)
    done
  done

lemma g_strsplit_first_separator:
  assumes "\<not> sublist '' => '' (S @ '' =>'')"
  shows "g_strsplit (S @ '' => '' @ D) '' => '' 2 = [S, D]"
proof -
  have "strstr (S @ '' => '' @ D) '' => '' = Some (length S)"
    using strstr_first [of "'' => ''" S D] assms by simp
  then have "split_loop 1 '' => '' (S @ '' => '' @ D) = ([S], D)"
    by simp
  then show ?thesis
    by (simp add: g_strsplit_def)
qed

text \<open>
  C6, as the code has it. The description \<open>S => D\<close> is split at its first separator.
  That is the separator written between \<open>S\<close> and \<open>D\<close> when \<open>S\<close> contains no separator
  and does not end in \<open>" =>"\<close>; then the source is \<open>S\<close> and the destination is all of
  \<open>D\<close>, whatever \<open>D\<close> contains (further separators included), since the split stops
  after two parts.
\<close>

theorem sdn_create_pair_first_separator:
  assumes "\<not> sublist '' => '' S" and "\<not> suffix '' =>'' S"
  shows "sdn_create_pair (S @ '' => '' @ D) = Inr \<lparr>source = Some S, destination = Some D\<rparr>"
  using g_strsplit_first_separator [OF separator_tail [OF assms], of D]
  by (simp add: sdn_create_pair_def vector_get_def g_strdup_def)

theorem sdn_create_pair_first_separator_witness:
  "\<not> sublist '' => '' ''fileA'' \<and> \<not> suffix '' =>'' ''fileA'' \<and>
   sdn_create_pair (''fileA'' @ '' => '' @ ''fileB => fileC'') =
     Inr \<lparr>source = Some ''fileA'', destination = Some ''fileB => fileC''\<rparr>"
proof -
  have a: "\<not> sublist '' => '' ''fileA''"
    by (simp add: sublist_code)
  have b: "\<not> suffix '' =>'' ''fileA''"
    by (simp add: suffix_def)
  show ?thesis
    using a b sdn_create_pair_first_separator [OF a b, of "''fileB => fileC''"] by simp
qed

text \<open>
  As the specification states it, C6 fails when \<open>S\<close> ends in \<open>" =>"\<close>: neither \<open>"x =>"\<close> nor \<open>"y"\<close>
  contains the separator, but in \<open>"x => => y"\<close> the first separator starts inside \<open>S\<close>.
\<close>

theorem sdn_create_pair_counterexample:
  "\<not> sublist '' => '' ''x =>'' \<and> \<not> sublist '' => '' ''y'' \<and>
   sdn_create_pair (''x =>'' @ '' => '' @ ''y'') =
     Inr \<lparr>source = Some ''x'', destination = Some ''=> y''\<rparr> \<and>
   sdn_create_pair (''x =>'' @ '' => '' @ ''y'') \<noteq>
     Inr \<lparr>source = Some ''x =>'', destination = Some ''y''\<rparr>"
  by (simp add: sublist_code sdn_create_pair_def g_strsplit_def vector_get_def g_strdup_def)

text \<open>
  A description that is not empty and has no separator gives one token: the source is
  the description and the destination is NULL.
\<close>

lemma sdn_create_pair_no_separator:
  assumes "d \<noteq> []" and "\<not> sublist '' => '' d"
  shows "sdn_create_pair d = Inr \<lparr>source = Some d, destination = None\<rparr>"
proof -
  have "strstr d '' => '' = None"
    using assms(2) by (simp add: strstr_None_iff)
  then have "split_loop 1 '' => '' d = ([], d)"
    by simp
  then have "g_strsplit d '' => '' 2 = [d]"
    using assms(1) by (simp add: g_strsplit_def)
  then show ?thesis
    by (simp add: sdn_create_pair_def vector_get_def g_strdup_def)
qed

text \<open>
  C7 at the empty description, which contains no separator: \<^verbatim>\<open>g_strsplit\<close> returns the
  empty vector, \<^verbatim>\<open>splitted[0]\<close> is its NULL terminator and \<^verbatim>\<open>splitted[1]\<close> is read past
  the end of the vector.
\<close>

theorem sdn_create_pair_empty_description:
  "sdn_create_pair [] = Inl Read_past_vector_end"
  by (simp add: sdn_create_pair_def g_strsplit_def vector_get_def)

subsection \<open>The size of the batch\<close>

lemma foreach_add_size:
  "g_sequence_foreach ps (sdn_add_size st) (data, lg) =
     (data\<lparr>total_size := total_size data + sum_list (successful_sizes st (sdn_context data) ps)\<rparr>,
      lg @ map (stat_failure st (sdn_context data)) (failed_lookups st (sdn_context data) ps))"
proof (induction ps arbitrary: data lg)
  case Nil
  then show ?case
    by (simp add: g_sequence_foreach_def successful_sizes_def failed_lookups_def)
next
  case (Cons p ps)
  show ?case
  proof (cases "st (sdn_context data) (source p)")
    case (Inl message)
    then show ?thesis
      using Cons.IH [of data "gfal2_log G_LOG_LEVEL_ERROR (Could_not_stat (source p) message) lg"]
      by (simp add: g_sequence_foreach_def sdn_add_size_def successful_sizes_def
          failed_lookups_def stat_ok_def stat_failure_def gfal2_log_def)
  next
    case (Inr st_size)
    then show ?thesis
      using Cons.IH [of "data\<lparr>total_size := total_size data + st_size\<rparr>" lg]
      by (simp add: g_sequence_foreach_def sdn_add_size_def successful_sizes_def
          failed_lookups_def stat_ok_def stat_size_def add.assoc)
  qed
qed

lemma calculate_the_size_eq:
  "calculate_the_size st (data, lg) =
     (data\<lparr>total_size := sum_list (successful_sizes st (sdn_context data) (pairs data))\<rparr>,
      lg @ map (stat_failure st (sdn_context data))
             (failed_lookups st (sdn_context data) (pairs data)))"
  by (simp add: calculate_the_size_def foreach_add_size)

text \<open>The sum of 64-bit words is the sum of their signed values, reduced to 64 bits.\<close>

lemma sum_list_sint: "(sum_list ws :: off_t) = word_of_int (sum_list (map sint ws))"
  by (induction ws) simp_all

lemma sint_sum_list:
  fixes ws :: "off_t list"
  assumes "- (2 ^ 63) \<le> sum_list (map sint ws)" and "sum_list (map sint ws) < 2 ^ 63"
  shows "sint (sum_list ws) = sum_list (map sint ws)"
proof -
  have "sint (word_of_int (sum_list (map sint ws)) :: off_t) = sum_list (map sint ws)"
    using assms by (simp add: sint_sbintrunc' signed_take_bit_int_eq_self)
  then show ?thesis
    using sum_list_sint [of ws] by simp
qed

text \<open>
  C1. The pass over a registry of \<open>n\<close> pairs, \<open>k\<close> of whose lookups fail, whatever
  \<^verbatim>\<open>total_size\<close> held before: it returns (the function is total); the new \<^verbatim>\<open>total_size\<close>
  is the sum of the \<open>n - k\<close> sizes of the successful lookups, in \<^verbatim>\<open>off_t\<close> arithmetic;
  the log grows by one error entry per failed lookup, in order; nothing else of the
  session changes. When the sum of the signed sizes fits \<^verbatim>\<open>off_t\<close>, the signed value of
  \<^verbatim>\<open>total_size\<close> is that sum.
\<close>

theorem aggregate_sums_successful_lookups:
  fixes data :: "'c sdn_t"
  defines "ctx \<equiv> sdn_context data"
  shows "calculate_the_size st (data, lg) =
           (data\<lparr>total_size := sum_list (successful_sizes st ctx (pairs data))\<rparr>,
            lg @ map (stat_failure st ctx) (failed_lookups st ctx (pairs data)))
         \<and> length (successful_sizes st ctx (pairs data)) =
             length (pairs data) - length (failed_lookups st ctx (pairs data))
         \<and> (- (2 ^ 63) \<le> sum_list (map sint (successful_sizes st ctx (pairs data))) \<and>
            sum_list (map sint (successful_sizes st ctx (pairs data))) < 2 ^ 63 \<longrightarrow>
            sint (total_size (fst (calculate_the_size st (data, lg)))) =
              sum_list (map sint (successful_sizes st ctx (pairs data))))"
proof -
  let ?ps = "pairs data"
  have a: "calculate_the_size st (data, lg) =
           (data\<lparr>total_size := sum_list (successful_sizes st ctx ?ps)\<rparr>,
            lg @ map (stat_failure st ctx) (failed_lookups st ctx ?ps))"
    unfolding ctx_def by (rule calculate_the_size_eq)
  have "length (filter (stat_ok st ctx) ?ps) + length (filter (\<lambda>p. \<not> stat_ok st ctx p) ?ps)
          = length ?ps"
    by (rule sum_length_filter_compl)
  then have b: "length (successful_sizes st ctx ?ps) =
                  length ?ps - length (failed_lookups st ctx ?ps)"
    by (simp add: successful_sizes_def failed_lookups_def)
  have c: "sint (total_size (fst (calculate_the_size st (data, lg)))) =
             sum_list (map sint (successful_sizes st ctx ?ps))"
    if "- (2 ^ 63) \<le> sum_list (map sint (successful_sizes st ctx ?ps))"
      and "sum_list (map sint (successful_sizes st ctx ?ps)) < 2 ^ 63"
    using sint_sum_list [OF that] by (simp add: a)
  from a b c show ?thesis
    by blast
qed

theorem aggregate_sums_successful_lookups_witness:
  "calculate_the_size (\<lambda>c p. if p = Some ''fileX'' then Inl ''No such file'' else Inr 100)
     (\<lparr>pairs = [\<lparr>source = Some ''fileA'', destination = Some ''fileB''\<rparr>,
                \<lparr>source = Some ''fileX'', destination = Some ''fileY''\<rparr>,
                \<lparr>source = Some ''fileC'', destination = None\<rparr>],
       sdn_context = (), total_size = 7\<rparr>, [])
   = (\<lparr>pairs = [\<lparr>source = Some ''fileA'', destination = Some ''fileB''\<rparr>,
                \<lparr>source = Some ''fileX'', destination = Some ''fileY''\<rparr>,
                \<lparr>source = Some ''fileC'', destination = None\<rparr>],
       sdn_context = (), total_size = 200\<rparr>,
      [(G_LOG_LEVEL_ERROR, Could_not_stat (Some ''fileX'') ''No such file'')])
   \<and> sint (total_size (fst (calculate_the_size
        (\<lambda>c p. if p = Some ''fileX'' then Inl ''No such file'' else Inr 100)
        (\<lparr>pairs = [\<lparr>source = Some ''fileA'', destination = Some ''fileB''\<rparr>,
                   \<lparr>source = Some ''fileX'', destination = Some ''fileY''\<rparr>,
                   \<lparr>source = Some ''fileC'', destination = None\<rparr>],
          sdn_context = (), total_size = 7\<rparr>, [])))) = 200"
  using aggregate_sums_successful_lookups
    [of "\<lambda>c p. if p = Some ''fileX'' then Inl ''No such file'' else Inr 100"
        "\<lparr>pairs = [\<lparr>source = Some ''fileA'', destination = Some ''fileB''\<rparr>,
                   \<lparr>source = Some ''fileX'', destination = Some ''fileY''\<rparr>,
                   \<lparr>source = Some ''fileC'', destination = None\<rparr>],
          sdn_context = (), total_size = 7\<rparr>" "[]"]
  by (simp add: successful_sizes_def failed_lookups_def stat_ok_def stat_size_def
      stat_failure_def)

subsection \<open>The events of a batch\<close>

lemma create_AB:
  "sdn_create_pair ''fileA => fileB'' =
     Inr \<lparr>source = Some ''fileA'', destination = Some ''fileB''\<rparr>"
  by (simp add: sdn_create_pair_def g_strsplit_def vector_get_def g_strdup_def)

lemma create_CD:
  "sdn_create_pair ''fileC => fileD'' =
     Inr \<lparr>source = Some ''fileC'', destination = Some ''fileD''\<rparr>"
  by (simp add: sdn_create_pair_def g_strsplit_def vector_get_def g_strdup_def)

lemma listener_enter:
  "sdn_event_listener st pu \<lparr>stage = GFAL_EVENT_LIST_ENTER, description = d\<rparr> (data, lg) =
     Inr (data\<lparr>pairs := []\<rparr>, lg)"
  by (simp add: sdn_event_listener_def g_sequence_remove_range_def
      g_sequence_get_begin_iter_def g_sequence_get_end_iter_def)

lemma listener_item:
  "sdn_event_listener st pu \<lparr>stage = GFAL_EVENT_LIST_ITEM, description = d\<rparr> (data, lg) =
     (case sdn_create_pair d of Inl f \<Rightarrow> Inl f
      | Inr pair \<Rightarrow> Inr (data\<lparr>pairs := pairs data @ [pair]\<rparr>, lg))"
  by (simp add: sdn_event_listener_def g_sequence_append_def split: sum.splits)

lemma listener_exit:
  "sdn_event_listener st pu \<lparr>stage = GFAL_EVENT_LIST_EXIT, description = d\<rparr> (data, lg) =
     sdn_notify_remote st pu (data, lg)"
  by (simp add: sdn_event_listener_def)

lemma notify_remote_Nil:
  "pairs data = [] \<Longrightarrow> sdn_notify_remote st pu (data, lg) = Inl Null_dereference"
  by (simp add: sdn_notify_remote_def g_sequence_get_begin_iter_def g_sequence_get_def)

lemma notify_remote_Cons:
  "pairs data = p # ps \<Longrightarrow>
   sdn_notify_remote st pu (data, lg) =
     (case pu (source p) of
        None \<Rightarrow> Inl Null_dereference
      | Some src_uri \<Rightarrow>
          (case pu (destination p) of
             None \<Rightarrow> Inl Null_dereference
           | Some dst_uri \<Rightarrow>
               Inr (data\<lparr>total_size := sum_list (successful_sizes st (sdn_context data) (pairs data))\<rparr>,
                    lg @ map (stat_failure st (sdn_context data))
                           (failed_lookups st (sdn_context data) (pairs data)) @
                    [(G_LOG_LEVEL_WARNING,
                      Between (host src_uri) (host dst_uri) (length (pairs data))
                        (sum_list (successful_sizes st (sdn_context data) (pairs data))))])))"
  by (simp add: sdn_notify_remote_def g_sequence_get_begin_iter_def g_sequence_get_def
      calculate_the_size_eq gfal2_log_def g_sequence_get_length_def Let_def
      split: option.splits)

text \<open>
  C2. The events \<^verbatim>\<open>LIST_ENTER\<close>, \<^verbatim>\<open>LIST_ITEM "fileA => fileB"\<close>,
  \<^verbatim>\<open>LIST_ITEM "fileC => fileD"\<close>, \<^verbatim>\<open>LIST_EXIT\<close>, delivered to a listener in any state, with
  a metadata query that reports 100 for \<open>fileA\<close> and 200 for \<open>fileC\<close> and a URI parser
  that returns a URI for \<open>fileA\<close> and for \<open>fileB\<close>: the run completes, the session holds
  the two pairs and the total 300, and the log grows by exactly one entry, the
  notification, with the hosts of the URIs of \<open>fileA\<close> and \<open>fileB\<close>, 2 files and 300
  bytes.
\<close>

theorem batch_of_two_notifies_once:
  assumes "st (sdn_context data) (Some ''fileA'') = Inr 100"
    and "st (sdn_context data) (Some ''fileC'') = Inr 200"
    and "pu (Some ''fileA'') = Some src_uri"
    and "pu (Some ''fileB'') = Some dst_uri"
  shows "deliver st pu
           [\<lparr>stage = GFAL_EVENT_LIST_ENTER, description = d0\<rparr>,
            \<lparr>stage = GFAL_EVENT_LIST_ITEM, description = ''fileA => fileB''\<rparr>,
            \<lparr>stage = GFAL_EVENT_LIST_ITEM, description = ''fileC => fileD''\<rparr>,
            \<lparr>stage = GFAL_EVENT_LIST_EXIT, description = d1\<rparr>] (data, lg) =
         Inr (data\<lparr>pairs := [\<lparr>source = Some ''fileA'', destination = Some ''fileB''\<rparr>,
                              \<lparr>source = Some ''fileC'', destination = Some ''fileD''\<rparr>],
                    total_size := 300\<rparr>,
              lg @ [(G_LOG_LEVEL_WARNING, Between (host src_uri) (host dst_uri) 2 300)])"
  using assms
  by (simp add: listener_enter listener_item listener_exit create_AB create_CD
      notify_remote_Cons successful_sizes_def failed_lookups_def stat_ok_def stat_size_def)

theorem batch_of_two_notifies_once_witness:
  "deliver (\<lambda>c p. if p = Some ''fileA'' then Inr 100 else if p = Some ''fileC'' then Inr 200
                   else Inl ''No such file'')
           (\<lambda>u. Some \<lparr>host = u\<rparr>)
           [\<lparr>stage = GFAL_EVENT_LIST_ENTER, description = []\<rparr>,
            \<lparr>stage = GFAL_EVENT_LIST_ITEM, description = ''fileA => fileB''\<rparr>,
            \<lparr>stage = GFAL_EVENT_LIST_ITEM, description = ''fileC => fileD''\<rparr>,
            \<lparr>stage = GFAL_EVENT_LIST_EXIT, description = []\<rparr>] (sdn_create_data (), []) =
         Inr (\<lparr>pairs = [\<lparr>source = Some ''fileA'', destination = Some ''fileB''\<rparr>,
                        \<lparr>source = Some ''fileC'', destination = Some ''fileD''\<rparr>],
               sdn_context = (), total_size = 300\<rparr>,
              [(G_LOG_LEVEL_WARNING, Between (Some ''fileA'') (Some ''fileB'') 2 300)])"
  using batch_of_two_notifies_once
    [of "\<lambda>c p. if p = Some ''fileA'' then Inr 100 else if p = Some ''fileC'' then Inr 200
                else Inl ''No such file''"
        "sdn_create_data ()" "\<lambda>u. Some \<lparr>host = u\<rparr>" "\<lparr>host = Some ''fileA''\<rparr>"
        "\<lparr>host = Some ''fileB''\<rparr>" "[]" "[]" "[]"]
  by (simp add: sdn_create_data_def g_sequence_new_def)

text \<open>
  C3 on the code. \<^verbatim>\<open>LIST_EXIT\<close> on a registry that \<^verbatim>\<open>LIST_ENTER\<close> has just cleared: the
  begin iterator of the empty sequence is its end iterator, not NULL, so the test
  \<^verbatim>\<open>if (!iter) return;\<close> does not return; \<^verbatim>\<open>g_sequence_get\<close> gives NULL and
  \<^verbatim>\<open>pair->source\<close> dereferences it.
\<close>

theorem exit_on_empty_registry_faults:
  "deliver st pu
     [\<lparr>stage = GFAL_EVENT_LIST_ENTER, description = d0\<rparr>,
      \<lparr>stage = GFAL_EVENT_LIST_EXIT, description = d1\<rparr>] (data, lg) = Inl Null_dereference"
  by (simp add: listener_enter listener_exit notify_remote_Nil)

text \<open>
  C10 on the code. When the first pair has no destination and \<^verbatim>\<open>gfal2_parse_uri\<close> returns
  NULL for the NULL string, \<^verbatim>\<open>LIST_EXIT\<close> dereferences that NULL in
  \<^verbatim>\<open>destination->host\<close>.
\<close>

theorem exit_with_absent_destination_faults:
  assumes "pairs data = pair # rest" and "destination pair = None" and "pu None = None"
  shows "sdn_event_listener st pu \<lparr>stage = GFAL_EVENT_LIST_EXIT, description = d\<rparr> (data, lg) =
           Inl Null_dereference"
  using assms by (simp add: listener_exit notify_remote_Cons split: option.splits)

theorem exit_with_absent_destination_faults_witness:
  "deliver (\<lambda>c p. Inr 100) (\<lambda>u. case u of None \<Rightarrow> None | Some s \<Rightarrow> Some \<lparr>host = Some s\<rparr>)
     [\<lparr>stage = GFAL_EVENT_LIST_ENTER, description = []\<rparr>,
      \<lparr>stage = GFAL_EVENT_LIST_ITEM, description = ''fileA''\<rparr>,
      \<lparr>stage = GFAL_EVENT_LIST_EXIT, description = []\<rparr>] (sdn_create_data (), []) =
   Inl Null_dereference"
  using exit_with_absent_destination_faults
    [of "\<lparr>pairs = [\<lparr>source = Some ''fileA'', destination = None\<rparr>], sdn_context = (),
          total_size = 0\<rparr>"
        "\<lparr>source = Some ''fileA'', destination = None\<rparr>" "[]"
        "\<lambda>u. case u of None \<Rightarrow> None | Some s \<Rightarrow> Some \<lparr>host = Some s\<rparr>"
        "\<lambda>c p. Inr 100" "[]" "[]"]
  by (simp add: listener_enter listener_item sdn_create_data_def g_sequence_new_def
      sdn_create_pair_def g_strsplit_def vector_get_def g_strdup_def)

text \<open>
  C8, as the code has it. An event that the listener completes leaves \<^verbatim>\<open>total_size\<close> equal
  to the sum of the sizes of the successful lookups for the pairs held when the event is
  \<^verbatim>\<open>LIST_EXIT\<close>, and leaves \<^verbatim>\<open>total_size\<close> as it was when the event is any other.
\<close>

theorem total_size_recomputed_at_exit_only:
  assumes "sdn_event_listener st pu e (data, lg) = Inr (data', lg')"
  shows "(stage e = GFAL_EVENT_LIST_EXIT \<longrightarrow> registry_consistent st data') \<and>
         (stage e \<noteq> GFAL_EVENT_LIST_EXIT \<longrightarrow> total_size data' = total_size data)"
proof (cases "stage e = GFAL_EVENT_LIST_EXIT")
  case True
  then have n: "sdn_notify_remote st pu (data, lg) = Inr (data', lg')"
    using assms by (simp add: sdn_event_listener_def)
  then obtain p ps where ps: "pairs data = p # ps"
    using notify_remote_Nil [of data st pu lg] by (cases "pairs data") auto
  have "data' = data\<lparr>total_size := sum_list (successful_sizes st (sdn_context data) (pairs data))\<rparr>"
    using n notify_remote_Cons [OF ps, of st pu lg] by (auto split: option.splits)
  then show ?thesis
    using True by (simp add: registry_consistent_def)
next
  case False
  then show ?thesis
    using assms by (auto simp: sdn_event_listener_def split: if_splits sum.splits)
qed

theorem total_size_recomputed_at_exit_only_witness:
  "sdn_event_listener (\<lambda>c p. Inr 100) (\<lambda>u. Some \<lparr>host = u\<rparr>)
     \<lparr>stage = GFAL_EVENT_LIST_EXIT, description = []\<rparr>
     (\<lparr>pairs = [\<lparr>source = Some ''fileA'', destination = Some ''fileB''\<rparr>], sdn_context = (),
       total_size = 7\<rparr>, []) =
   Inr (\<lparr>pairs = [\<lparr>source = Some ''fileA'', destination = Some ''fileB''\<rparr>], sdn_context = (),
         total_size = 100\<rparr>,
        [(G_LOG_LEVEL_WARNING, Between (Some ''fileA'') (Some ''fileB'') 1 100)]) \<and>
   registry_consistent (\<lambda>c p. Inr 100)
     \<lparr>pairs = [\<lparr>source = Some ''fileA'', destination = Some ''fileB''\<rparr>], sdn_context = (),
       total_size = 100\<rparr>"
proof -
  have r: "sdn_event_listener (\<lambda>c p. Inr 100) (\<lambda>u. Some \<lparr>host = u\<rparr>)
     \<lparr>stage = GFAL_EVENT_LIST_EXIT, description = []\<rparr>
     (\<lparr>pairs = [\<lparr>source = Some ''fileA'', destination = Some ''fileB''\<rparr>], sdn_context = (),
       total_size = 7\<rparr>, []) =
   Inr (\<lparr>pairs = [\<lparr>source = Some ''fileA'', destination = Some ''fileB''\<rparr>], sdn_context = (),
         total_size = 100\<rparr>,
        [(G_LOG_LEVEL_WARNING, Between (Some ''fileA'') (Some ''fileB'') 1 100)])"
    by (simp add: listener_exit notify_remote_Cons successful_sizes_def failed_lookups_def
        stat_ok_def stat_size_def)
  show ?thesis
    using r total_size_recomputed_at_exit_only [OF r] by simp
qed

text \<open>
  As the specification states it, C8 fails: the invariant does not hold at every point.
  After \<^verbatim>\<open>LIST_ITEM\<close>, \<^verbatim>\<open>LIST_EXIT\<close>,
  \<^verbatim>\<open>LIST_ENTER\<close> the registry is empty and \<^verbatim>\<open>total_size\<close> is still the 100 of the batch
  before.
\<close>

theorem total_size_stale_after_enter:
  "deliver (\<lambda>c p. Inr 100) (\<lambda>u. Some \<lparr>host = u\<rparr>)
     [\<lparr>stage = GFAL_EVENT_LIST_ITEM, description = ''fileA => fileB''\<rparr>,
      \<lparr>stage = GFAL_EVENT_LIST_EXIT, description = []\<rparr>,
      \<lparr>stage = GFAL_EVENT_LIST_ENTER, description = []\<rparr>] (sdn_create_data (), []) =
   Inr (\<lparr>pairs = [], sdn_context = (), total_size = 100\<rparr>,
        [(G_LOG_LEVEL_WARNING, Between (Some ''fileA'') (Some ''fileB'') 1 100)]) \<and>
   \<not> registry_consistent (\<lambda>c p. Inr 100) \<lparr>pairs = [], sdn_context = (), total_size = 100\<rparr>"
  by (simp add: listener_enter listener_item listener_exit create_AB notify_remote_Cons
      sdn_create_data_def g_sequence_new_def registry_consistent_def
      successful_sizes_def failed_lookups_def stat_ok_def stat_size_def)

subsection \<open>The passive-mode description\<close>

lemma span_class:
  "list_all P xs \<Longrightarrow> \<not> P y \<Longrightarrow>
   takeWhile P (xs @ y # ys) = xs \<and> dropWhile P (xs @ y # ys) = y # ys"
  by (induction xs) auto

lemma takeWhile_all: "list_all P xs \<Longrightarrow> takeWhile P xs = xs"
  by (induction xs) auto

lemma list_all_takeWhile: "list_all P (takeWhile P xs)"
  by (induction xs) auto

lemma takeWhile_prefix_nonempty:
  "list_all P xs \<Longrightarrow> xs \<noteq> [] \<Longrightarrow> takeWhile P (xs @ ys) \<noteq> []"
  by (cases xs) auto

lemma not_host_colon: "\<not> is_host_char CHR '':''"
  by (simp add: is_host_char_def char_range_def)

lemma not_ip_bracket: "\<not> is_ip_char CHR '']''"
  by (simp add: is_ip_char_def char_range_def)

lemma match_here_endpoint:
  assumes "endpoint_grammar h ip p"
  shows "match_here (endpoint_text h ip p @ after) =
           Some (length h, length ip, length (takeWhile is_digit (p @ after)))"
proof -
  from assms have h: "h \<noteq> []" "list_all is_host_char h"
    and ip: "ip \<noteq> []" "list_all is_ip_char ip"
    and p: "p \<noteq> []" "list_all is_digit p"
    by (simp_all add: endpoint_grammar_def)
  have s1: "takeWhile is_host_char (h @ CHR '':'' # r) = h"
    "dropWhile is_host_char (h @ CHR '':'' # r) = CHR '':'' # r" for r
    using span_class [OF h(2) not_host_colon, of r] by simp_all
  have s2: "takeWhile is_ip_char (ip @ CHR '']'' # r) = ip"
    "dropWhile is_ip_char (ip @ CHR '']'' # r) = CHR '']'' # r" for r
    using span_class [OF ip(2) not_ip_bracket, of r] by simp_all
  have s3: "takeWhile is_digit (p @ after) \<noteq> []"
    using takeWhile_prefix_nonempty [OF p(2) p(1)] .
  show ?thesis
    using h(1) ip(1) s3 by (simp add: endpoint_text_def match_here_def s1 s2 Let_def)
qed

lemma match_here_Some:
  assumes "match_here s = Some (n1, n2, n3)"
  shows "\<exists>h ip p after. endpoint_grammar h ip p \<and> s = endpoint_text h ip p @ after \<and>
           n1 = length h \<and> n2 = length ip \<and> n3 = length p"
proof -
  define g1 where "g1 = takeWhile is_host_char s"
  define r1 where "r1 = dropWhile is_host_char s"
  define g2 where "g2 = takeWhile is_ip_char (drop 2 r1)"
  define r2 where "r2 = dropWhile is_ip_char (drop 2 r1)"
  define g3 where "g3 = takeWhile is_digit (drop 2 r2)"
  from assms have c: "g1 \<noteq> []" "prefix '':['' r1" "g2 \<noteq> []" "prefix '']:'' r2" "g3 \<noteq> []"
    and n: "n1 = length g1" "n2 = length g2" "n3 = length g3"
    unfolding match_here_def g1_def r1_def g2_def r2_def g3_def
    by (auto simp: Let_def split: if_splits)
  have "s = g1 @ r1"
    by (simp add: g1_def r1_def)
  moreover have "r1 = '':['' @ drop 2 r1"
    using c(2) by (auto simp: prefix_def)
  moreover have "drop 2 r1 = g2 @ r2"
    by (simp add: g2_def r2_def)
  moreover have "r2 = '']:'' @ drop 2 r2"
    using c(4) by (auto simp: prefix_def)
  moreover have "drop 2 r2 = g3 @ dropWhile is_digit (drop 2 r2)"
    by (simp add: g3_def)
  ultimately have "s = endpoint_text g1 g2 g3 @ dropWhile is_digit (drop 2 r2)"
    unfolding endpoint_text_def by (metis append.assoc)
  moreover have "endpoint_grammar g1 g2 g3"
    using c by (simp add: endpoint_grammar_def g1_def g2_def g3_def list_all_takeWhile)
  ultimately show ?thesis
    using n by blast
qed

text \<open>
  \<^verbatim>\<open>regexec\<close> reports \<^verbatim>\<open>REG_NOMATCH\<close> exactly for the descriptions that contain no text of
  the grammar.
\<close>

lemma regexec_from_Some_contains:
  "regexec_from i s = Some ms \<Longrightarrow> contains_endpoint s"
proof (induction i s rule: regexec_from.induct)
  case (1 i s)
  show ?case
  proof (cases "match_here s")
    case (Some t)
    obtain n1 n2 n3 where "t = (n1, n2, n3)"
      by (cases t) auto
    with Some obtain h ip p after where "endpoint_grammar h ip p" "s = endpoint_text h ip p @ after"
      using match_here_Some by blast
    then have "endpoint_grammar h ip p \<and> s = [] @ endpoint_text h ip p @ after"
      by simp
    then show ?thesis
      unfolding contains_endpoint_def by blast
  next
    case None
    with "1.prems" obtain c cs where s: "s = c # cs" and r: "regexec_from (Suc i) cs = Some ms"
      by (cases s) auto
    from "1.IH" [OF None s r] obtain before h ip p after
      where "endpoint_grammar h ip p" "cs = before @ endpoint_text h ip p @ after"
      unfolding contains_endpoint_def by blast
    then have "endpoint_grammar h ip p \<and> s = (c # before) @ endpoint_text h ip p @ after"
      using s by simp
    then show ?thesis
      unfolding contains_endpoint_def by blast
  qed
qed

lemma regexec_from_append:
  "match_here s \<noteq> None \<Longrightarrow> regexec_from i (before @ s) \<noteq> None"
proof (induction before arbitrary: i)
  case Nil
  then show ?case by (auto split: option.splits)
next
  case (Cons c before)
  then show ?case
    by (cases "match_here ((c # before) @ s)") auto
qed

lemma regexec_None_iff: "regexec d = None \<longleftrightarrow> \<not> contains_endpoint d"
proof
  assume "regexec d = None"
  show "\<not> contains_endpoint d"
  proof
    assume "contains_endpoint d"
    then obtain before h ip p after
      where g: "endpoint_grammar h ip p" and d: "d = before @ endpoint_text h ip p @ after"
      unfolding contains_endpoint_def by blast
    have "match_here (endpoint_text h ip p @ after) \<noteq> None"
      using match_here_endpoint [OF g] by simp
    then have "regexec_from 0 (before @ endpoint_text h ip p @ after) \<noteq> None"
      by (rule regexec_from_append)
    with d \<open>regexec d = None\<close> show False
      by (simp add: regexec_def)
  qed
next
  assume "\<not> contains_endpoint d"
  then show "regexec d = None"
    using regexec_from_Some_contains [of 0 d] by (cases "regexec d") (auto simp: regexec_def)
qed


lemma regexec_endpoint:
  assumes "endpoint_grammar h ip p"
  shows "regexec (endpoint_text h ip p) =
           Some [\<lparr>rm_so = 0, rm_eo = length h + 2 + length ip + 2 + length p\<rparr>,
                 \<lparr>rm_so = 0, rm_eo = length h\<rparr>,
                 \<lparr>rm_so = length h + 2, rm_eo = length h + 2 + length ip\<rparr>,
                 \<lparr>rm_so = length h + 2 + length ip + 2,
                  rm_eo = length h + 2 + length ip + 2 + length p\<rparr>]"
proof -
  have "list_all is_digit p"
    using assms by (simp add: endpoint_grammar_def)
  then have tw: "takeWhile is_digit p = p"
    by (rule takeWhile_all)
  have "match_here (endpoint_text h ip p) = Some (length h, length ip, length p)"
    using match_here_endpoint [OF assms, of "[]"] by (simp add: tw)
  then show ?thesis
    by (simp add: regexec_def)
qed

lemma g_strlcpy_clamped:
  assumes "0 < cap"
  shows "g_strlcpy cap (drop so d) (if eo - so + 1 > cap then cap else eo - so + 1) =
           Inr (take (cap - 1) (take (eo - so) (drop so d)))"
proof (cases "eo - so + 1 > cap")
  case True
  then have "min (cap - 1) (eo - so) = cap - 1"
    by simp
  then show ?thesis
    using True by (simp add: g_strlcpy_def)
next
  case False
  then have "min (cap - 1) (eo - so) = eo - so"
    by simp
  then show ?thesis
    using False by (simp add: g_strlcpy_def)
qed

lemma dest_pasv_matched:
  assumes "regexec d = Some matches"
  shows "sdn_dest_pasv d lg =
           (case atoi (drop (rm_so (matches ! 3)) d) of
              Inl f \<Rightarrow> Inl f
            | Inr port \<Rightarrow>
                Inr (lg @ [(G_LOG_LEVEL_WARNING,
                            Got (take 63 (submatch d (matches ! 2))) port
                              (take 255 (submatch d (matches ! 1))))]))"
proof -
  have h: "g_strlcpy 256 (drop (rm_so (matches ! 1)) d)
             (if rm_eo (matches ! 1) - rm_so (matches ! 1) + 1 > 256 then 256
              else rm_eo (matches ! 1) - rm_so (matches ! 1) + 1) =
           Inr (take 255 (submatch d (matches ! 1)))"
    using g_strlcpy_clamped [of 256 "rm_so (matches ! 1)" d "rm_eo (matches ! 1)"]
    by (simp add: submatch_def)
  have i: "g_strlcpy 64 (drop (rm_so (matches ! 2)) d)
             (if rm_eo (matches ! 2) - rm_so (matches ! 2) + 1 > 64 then 64
              else rm_eo (matches ! 2) - rm_so (matches ! 2) + 1) =
           Inr (take 63 (submatch d (matches ! 2)))"
    using g_strlcpy_clamped [of 64 "rm_so (matches ! 2)" d "rm_eo (matches ! 2)"]
    by (simp add: submatch_def)
  show ?thesis
    by (simp only: sdn_dest_pasv_def Let_def assms option.case h i sum.case gfal2_log_def)
qed

lemma atoi_fault: "atoi s = Inl f \<Longrightarrow> f = Value_out_of_range"
  by (auto simp: atoi_def Let_def split: if_splits)

lemma fold_decimal:
  "fold (\<lambda>c acc. acc * 10 + digit_value c) p a = a * 10 ^ length p + decimal p"
  by (induction p arbitrary: a) (simp_all add: algebra_simps)

lemma digit_not_space: "is_digit c \<Longrightarrow> \<not> isspace c"
  by (auto simp: is_digit_def isspace_def char_range_def)

lemma digit_not_sign: "is_digit c \<Longrightarrow> c \<noteq> CHR ''-'' \<and> c \<noteq> CHR ''+''"
  by (auto simp: is_digit_def char_range_def)

lemma atoi_digits:
  assumes "list_all is_digit p" and "p \<noteq> []"
  shows "atoi p = (if int (decimal p) \<le> INT_MAX then Inr (int (decimal p))
                   else Inl Value_out_of_range)"
proof -
  obtain c cs where p: "p = c # cs"
    using assms(2) by (cases p) auto
  then have c: "is_digit c"
    using assms(1) by simp
  have a: "dropWhile isspace p = p"
    using p digit_not_space [OF c] by simp
  have b: "\<not> prefix ''-'' p" "\<not> prefix ''+'' p"
    using p digit_not_sign [OF c] by auto
  have t: "takeWhile is_digit p = p"
    using assms(1) by (rule takeWhile_all)
  have "INT_MIN \<le> int (decimal p)"
    by (simp add: INT_MIN_def)
  then show ?thesis
    by (simp add: atoi_def Let_def fold_decimal a b t)
qed

lemma dest_pasv_endpoint:
  assumes "endpoint_grammar h ip p"
  shows "sdn_dest_pasv (endpoint_text h ip p) lg =
           (if int (decimal p) \<le> INT_MAX
            then Inr (lg @ [(G_LOG_LEVEL_WARNING,
                             Got (take 63 ip) (int (decimal p)) (take 255 h))])
            else Inl Value_out_of_range)"
proof -
  from assms have p: "list_all is_digit p" "p \<noteq> []"
    by (simp_all add: endpoint_grammar_def)
  define ms where "ms =
    [\<lparr>rm_so = 0, rm_eo = length h + 2 + length ip + 2 + length p\<rparr>,
     \<lparr>rm_so = 0, rm_eo = length h\<rparr>,
     \<lparr>rm_so = length h + 2, rm_eo = length h + 2 + length ip\<rparr>,
     \<lparr>rm_so = length h + 2 + length ip + 2, rm_eo = length h + 2 + length ip + 2 + length p\<rparr>]"
  have r: "regexec (endpoint_text h ip p) = Some ms"
    unfolding ms_def by (rule regexec_endpoint [OF assms])
  have m1: "submatch (endpoint_text h ip p) (ms ! 1) = h"
    by (simp add: ms_def submatch_def endpoint_text_def)
  have m2: "submatch (endpoint_text h ip p) (ms ! 2) = ip"
    by (simp add: ms_def submatch_def endpoint_text_def)
  have m3: "drop (rm_so (ms ! 3)) (endpoint_text h ip p) = p"
  proof -
    have "rm_so (ms ! 3) = length (h @ '':['' @ ip @ '']:'')"
      by (simp add: ms_def)
    moreover have "endpoint_text h ip p = (h @ '':['' @ ip @ '']:'') @ p"
      by (simp add: endpoint_text_def)
    ultimately show ?thesis
      by (metis append_eq_conv_conj)
  qed
  show ?thesis
    unfolding dest_pasv_matched [OF r] m1 m2 m3 atoi_digits [OF p] by simp
qed

text \<open>
  C4, as the code has it. For a description of the exact form \<^verbatim>\<open>host:[ip]:port\<close> whose
  port, read in base 10, fits \<^verbatim>\<open>int\<close>: the description is parsed, and the endpoint logged
  is the first 255 characters of the host, the first 63 characters of the address, and
  the port; a host of at most 255 and an address of at most 63 characters are logged
  whole.
\<close>

theorem sdn_dest_pasv_endpoint:
  assumes "endpoint_grammar h ip p" and "int (decimal p) \<le> INT_MAX"
  shows "sdn_dest_pasv (endpoint_text h ip p) lg =
           Inr (lg @ [(G_LOG_LEVEL_WARNING, Got (take 63 ip) (int (decimal p)) (take 255 h))])
         \<and> (length h \<le> 255 \<and> length ip \<le> 63 \<longrightarrow>
            sdn_dest_pasv (endpoint_text h ip p) lg =
              Inr (lg @ [(G_LOG_LEVEL_WARNING, Got ip (int (decimal p)) h)]))"
  using dest_pasv_endpoint [OF assms(1), of lg] assms(2) by simp

theorem sdn_dest_pasv_endpoint_witness:
  "sdn_dest_pasv ''ftpnode1:[192.168.1.10]:20000'' [] =
     Inr [(G_LOG_LEVEL_WARNING, Got ''192.168.1.10'' 20000 ''ftpnode1'')] \<and>
   sdn_dest_pasv ''ftpnode1:[2001:db8::1]:20000'' [] =
     Inr [(G_LOG_LEVEL_WARNING, Got ''2001:db8::1'' 20000 ''ftpnode1'')]"
proof -
  have g4: "endpoint_grammar ''ftpnode1'' ''192.168.1.10'' ''20000''"
    by (simp add: endpoint_grammar_def is_host_char_def is_ip_char_def is_digit_def
        char_range_def)
  have g6: "endpoint_grammar ''ftpnode1'' ''2001:db8::1'' ''20000''"
    by (simp add: endpoint_grammar_def is_host_char_def is_ip_char_def is_digit_def
        char_range_def)
  have v: "int (decimal ''20000'') \<le> INT_MAX"
    by (simp add: digit_value_def INT_MAX_def)
  show ?thesis
    using sdn_dest_pasv_endpoint [OF g4 v, of "[]"] sdn_dest_pasv_endpoint [OF g6 v, of "[]"]
    by (simp add: endpoint_text_def digit_value_def)
qed

text \<open>
  As the specification states it, C4 fails for a host of 256 characters: 255 of them are
  returned.
\<close>

theorem sdn_dest_pasv_long_host:
  "endpoint_grammar (replicate 256 CHR ''a'') ''1'' ''2'' \<and>
   sdn_dest_pasv (endpoint_text (replicate 256 CHR ''a'') ''1'' ''2'') [] =
     Inr [(G_LOG_LEVEL_WARNING, Got ''1'' 2 (replicate 255 CHR ''a''))] \<and>
   replicate 255 CHR ''a'' \<noteq> replicate 256 CHR ''a''"
proof -
  have g: "endpoint_grammar (replicate 256 CHR ''a'') ''1'' ''2''"
    by (simp add: endpoint_grammar_def is_host_char_def is_ip_char_def is_digit_def
        char_range_def list_all_iff)
  have "length (replicate 255 CHR ''a'') \<noteq> length (replicate 256 CHR ''a'')"
    by simp
  then have n: "replicate 255 CHR ''a'' \<noteq> replicate 256 CHR ''a''"
    by metis
  show ?thesis
    using g n dest_pasv_endpoint [OF g, of "[]"] by (simp add: digit_value_def INT_MAX_def)
qed

lemma listener_pasv:
  "sdn_event_listener st pu \<lparr>stage = GFAL_GRIDFTP_PASV_STAGE_QUARK, description = d\<rparr> (data, lg) =
     (case sdn_dest_pasv d lg of Inl f \<Rightarrow> Inl f | Inr lg' \<Rightarrow> Inr (data, lg'))"
  by (simp add: sdn_event_listener_def)

lemma dest_pasv_nomatch:
  "regexec d = None \<Longrightarrow>
   sdn_dest_pasv d lg = Inr (lg @ [(G_LOG_LEVEL_CRITICAL, Could_not_be_parsed d)])"
  by (simp add: sdn_dest_pasv_def gfal2_log_def)

lemma regexec_not_a_valid_descriptor: "regexec ''not-a-valid-descriptor'' = None"
  by (simp add: regexec_def match_here_def is_host_char_def char_range_def)

text \<open>
  C5, as the code has it. For a description that contains no text of the grammar, the
  parse reports no match: the run completes, the log grows by one entry of level
  \<^verbatim>\<open>CRITICAL\<close> and by no endpoint, and the listener leaves the session as it was.
\<close>

theorem unparsable_description_is_logged:
  assumes "\<not> contains_endpoint d"
  shows "sdn_dest_pasv d lg = Inr (lg @ [(G_LOG_LEVEL_CRITICAL, Could_not_be_parsed d)]) \<and>
         sdn_event_listener st pu
           \<lparr>stage = GFAL_GRIDFTP_PASV_STAGE_QUARK, description = d\<rparr> (data, lg) =
         Inr (data, lg @ [(G_LOG_LEVEL_CRITICAL, Could_not_be_parsed d)])"
proof -
  have "regexec d = None"
    using assms by (simp add: regexec_None_iff)
  then show ?thesis
    by (simp add: listener_pasv dest_pasv_nomatch)
qed

theorem unparsable_description_is_logged_witness:
  "\<not> contains_endpoint ''not-a-valid-descriptor'' \<and>
   sdn_dest_pasv ''not-a-valid-descriptor'' [] =
     Inr [(G_LOG_LEVEL_CRITICAL, Could_not_be_parsed ''not-a-valid-descriptor'')] \<and>
   sdn_event_listener (\<lambda>c p. Inr 100) (\<lambda>u. Some \<lparr>host = u\<rparr>)
     \<lparr>stage = GFAL_GRIDFTP_PASV_STAGE_QUARK, description = ''not-a-valid-descriptor''\<rparr>
     (sdn_create_data (), []) =
     Inr (sdn_create_data (),
          [(G_LOG_LEVEL_CRITICAL, Could_not_be_parsed ''not-a-valid-descriptor'')])"
proof -
  have n: "\<not> contains_endpoint ''not-a-valid-descriptor''"
    using regexec_not_a_valid_descriptor by (simp add: regexec_None_iff)
  show ?thesis
    using n unparsable_description_is_logged
      [OF n, of "[]" "\<lambda>c p. Inr 100" "\<lambda>u. Some \<lparr>host = u\<rparr>" "sdn_create_data ()"]
    by simp
qed

lemma matches_grammar_last_digit:
  assumes "matches_grammar d"
  shows "is_digit (last d)"
proof -
  from assms obtain h ip p where g: "endpoint_grammar h ip p" and d: "d = endpoint_text h ip p"
    unfolding matches_grammar_def by blast
  from g have p: "p \<noteq> []" "list_all is_digit p"
    by (simp_all add: endpoint_grammar_def)
  have "last d = last p"
    using d p(1) by (simp add: endpoint_text_def)
  moreover have "last p \<in> set p"
    using p(1) by simp
  ultimately show ?thesis
    using p(2) by (simp add: list_all_iff)
qed

text \<open>
  As the specification states it, C5 fails for a description that is not of the grammar
  but contains a text of it: the pattern has no anchors, and the endpoint inside is
  logged.
\<close>

theorem endpoint_inside_other_text:
  "\<not> matches_grammar ''ftpnode1:[192.168.1.10]:20000 (passive)'' \<and>
   sdn_dest_pasv ''ftpnode1:[192.168.1.10]:20000 (passive)'' [] =
     Inr [(G_LOG_LEVEL_WARNING, Got ''192.168.1.10'' 20000 ''ftpnode1'')]"
proof -
  have "\<not> is_digit (last ''ftpnode1:[192.168.1.10]:20000 (passive)'')"
    by (simp add: is_digit_def char_range_def)
  then have a: "\<not> matches_grammar ''ftpnode1:[192.168.1.10]:20000 (passive)''"
    using matches_grammar_last_digit by blast
  have r: "regexec ''ftpnode1:[192.168.1.10]:20000 (passive)'' =
             Some [\<lparr>rm_so = 0, rm_eo = 29\<rparr>, \<lparr>rm_so = 0, rm_eo = 8\<rparr>,
                   \<lparr>rm_so = 10, rm_eo = 22\<rparr>, \<lparr>rm_so = 24, rm_eo = 29\<rparr>]"
    by (simp add: regexec_def match_here_def is_host_char_def is_ip_char_def is_digit_def
        char_range_def)
  have b: "sdn_dest_pasv ''ftpnode1:[192.168.1.10]:20000 (passive)'' [] =
     Inr [(G_LOG_LEVEL_WARNING, Got ''192.168.1.10'' 20000 ''ftpnode1'')]"
    unfolding dest_pasv_matched [OF r]
    by (simp add: submatch_def atoi_def isspace_def is_digit_def char_range_def
        digit_value_def INT_MIN_def INT_MAX_def)
  from a b show ?thesis
    by simp
qed

text \<open>
  C9. For a description that \<^verbatim>\<open>regexec\<close> matches: the copy into \<^verbatim>\<open>char host[256]\<close> writes
  inside the array and leaves the first 255 characters of the matched host, the copy
  into \<^verbatim>\<open>char ip[64]\<close> writes inside the array and leaves the first 63 characters of the
  matched address, \<^verbatim>\<open>sdn_dest_pasv\<close> never overflows a buffer, and when the port fits
  \<^verbatim>\<open>int\<close> the only log entry is the endpoint with the truncated fields, at level
  \<^verbatim>\<open>WARNING\<close>.
\<close>

theorem truncation_is_safe:
  assumes "regexec d = Some matches"
  shows "g_strlcpy 256 (drop (rm_so (matches ! 1)) d)
           (if rm_eo (matches ! 1) - rm_so (matches ! 1) + 1 > 256 then 256
            else rm_eo (matches ! 1) - rm_so (matches ! 1) + 1) =
         Inr (take 255 (submatch d (matches ! 1)))
       \<and> g_strlcpy 64 (drop (rm_so (matches ! 2)) d)
           (if rm_eo (matches ! 2) - rm_so (matches ! 2) + 1 > 64 then 64
            else rm_eo (matches ! 2) - rm_so (matches ! 2) + 1) =
         Inr (take 63 (submatch d (matches ! 2)))
       \<and> sdn_dest_pasv d lg \<noteq> Inl Buffer_overflow
       \<and> sdn_dest_pasv d lg =
           (case atoi (drop (rm_so (matches ! 3)) d) of
              Inl f \<Rightarrow> Inl f
            | Inr port \<Rightarrow>
                Inr (lg @ [(G_LOG_LEVEL_WARNING,
                            Got (take 63 (submatch d (matches ! 2))) port
                              (take 255 (submatch d (matches ! 1))))]))"
proof -
  have h: "g_strlcpy 256 (drop (rm_so (matches ! 1)) d)
             (if rm_eo (matches ! 1) - rm_so (matches ! 1) + 1 > 256 then 256
              else rm_eo (matches ! 1) - rm_so (matches ! 1) + 1) =
           Inr (take 255 (submatch d (matches ! 1)))"
    using g_strlcpy_clamped [of 256 "rm_so (matches ! 1)" d "rm_eo (matches ! 1)"]
    by (simp add: submatch_def)
  have i: "g_strlcpy 64 (drop (rm_so (matches ! 2)) d)
             (if rm_eo (matches ! 2) - rm_so (matches ! 2) + 1 > 64 then 64
              else rm_eo (matches ! 2) - rm_so (matches ! 2) + 1) =
           Inr (take 63 (submatch d (matches ! 2)))"
    using g_strlcpy_clamped [of 64 "rm_so (matches ! 2)" d "rm_eo (matches ! 2)"]
    by (simp add: submatch_def)
  note r = dest_pasv_matched [OF assms, of lg]
  have "sdn_dest_pasv d lg \<noteq> Inl Buffer_overflow"
    unfolding r using atoi_fault [of "drop (rm_so (matches ! 3)) d"]
    by (auto split: sum.splits)
  with h i r show ?thesis
    by blast
qed

theorem truncation_is_safe_witness:
  "regexec (replicate 300 CHR ''a'' @ '':[1.2.3.4]:2811'') =
     Some [\<lparr>rm_so = 0, rm_eo = 315\<rparr>, \<lparr>rm_so = 0, rm_eo = 300\<rparr>,
           \<lparr>rm_so = 302, rm_eo = 309\<rparr>, \<lparr>rm_so = 311, rm_eo = 315\<rparr>] \<and>
   sdn_dest_pasv (replicate 300 CHR ''a'' @ '':[1.2.3.4]:2811'') [] =
     Inr [(G_LOG_LEVEL_WARNING, Got ''1.2.3.4'' 2811 (replicate 255 CHR ''a''))]"
proof -
  have g: "endpoint_grammar (replicate 300 CHR ''a'') ''1.2.3.4'' ''2811''"
    by (simp add: endpoint_grammar_def is_host_char_def is_ip_char_def is_digit_def
        char_range_def list_all_iff)
  have r: "regexec (replicate 300 CHR ''a'' @ '':[1.2.3.4]:2811'') =
     Some [\<lparr>rm_so = 0, rm_eo = 315\<rparr>, \<lparr>rm_so = 0, rm_eo = 300\<rparr>,
           \<lparr>rm_so = 302, rm_eo = 309\<rparr>, \<lparr>rm_so = 311, rm_eo = 315\<rparr>]"
    using regexec_endpoint [OF g] by (simp add: endpoint_text_def)
  show ?thesis
    using r truncation_is_safe [OF r, of "[]"]
    by (simp add: submatch_def atoi_def isspace_def is_digit_def char_range_def
        digit_value_def INT_MIN_def INT_MAX_def)
qed

end
